theory Spec2Isabelle
  imports Complex_Main
begin

section \<open>Data model of \<open>swift/llm/utils/model.py\<close> and \<open>swift/llm/infer.py\<close>\<close>

text \<open>
  The embedding follows the two source files. Python objects become records, dictionaries
  become association lists (the first pair with a key is the one a lookup finds) or maps,
  every \<open>raise\<close> and every failing \<open>assert\<close> is a value of the type \<open>error\<close>, and the
  process-wide state the code mutates (the registry \<open>MODEL_MAPPING\<close>, the attributes of
  library modules and classes that are monkey-patched, the downloads performed) is passed
  explicitly.
\<close>

subsection \<open>Values\<close>

datatype Dtype = float16 | float32 | bfloat16 | float64

text \<open>A Python float: a finite binary64 value is a rational number.\<close>

datatype pyfloat = Finite rat | PosInf | NegInf | NaN

fun float_gt_0 :: "pyfloat \<Rightarrow> bool" where
  "float_gt_0 (Finite r) = (0 < r)"
| "float_gt_0 PosInf = True"
| "float_gt_0 NegInf = False"
| "float_gt_0 NaN = False"

fun float_lt_1 :: "pyfloat \<Rightarrow> bool" where
  "float_lt_1 (Finite r) = (r < 1)"
| "float_lt_1 PosInf = False"
| "float_lt_1 NegInf = True"
| "float_lt_1 NaN = False"

datatype error =
    ValueError_already_registered string
  | KeyError string
  | TypeError
  | AttributeError string
  | OSError string
  | HubError string
  | AssertionError_model_dir string
  | RequireVersionError string
  | AssertionError_please_use Dtype
  | AssertionError_eos_token
  | AssertionError_quantization_config
  | ImportError_awq_ext
  | ModuleNotFoundError string
  | ValueError_max_model_len int int

record tokenizer =
  eos_token :: "string option"
  pad_token :: "string option"
  vocab :: "string \<Rightarrow> int option"
  tok_model_type :: "string option"
  tok_model_dir :: "string option"

record model_config =
  config_torch_dtype :: "Dtype option"
  attn_implementation :: "string option"
  flash_attn_2_enabled :: "bool option"
  pretraining_tp :: "int option"
  config_attrs :: "(string \<times> int) list"

record generation_config =
  max_new_tokens :: "int option"
  temperature :: pyfloat
  top_k :: "int option"
  top_p :: pyfloat
  do_sample :: bool
  repetition_penalty :: pyfloat
  num_beams :: int
  pad_token_id :: "int option"
  eos_token_id :: "int option"

datatype gptq_exllama = use_exllama_False | disable_exllama_True

record bnb_config =
  load_in_8bit :: bool
  load_in_4bit :: bool
  bnb_4bit_compute_dtype :: "Dtype option"
  bnb_4bit_quant_type :: string
  bnb_4bit_use_double_quant :: bool

datatype quantization_config =
    BitsAndBytesConfig bnb_config
  | GPTQConfig int gptq_exllama

record model_kwargs =
  device_map :: "string option"
  low_cpu_mem_usage :: "bool option"
  quantization_config :: "quantization_config option"

record model =
  config :: model_config
  max_model_len :: "int option"
  model_type :: "string option"
  model_dir :: "string option"
  generation_config :: "generation_config option"
  is_awq :: "bool option"
  gptq_bits :: "int option"
  set_gradient_checkpointing_takes_value :: bool

text \<open>The values that travel in \<open>**kwargs\<close> and \<open>function_kwargs\<close>.\<close>

datatype pyval =
    VNone
  | VBool bool
  | VInt int
  | VStr string
  | VTokenizer tokenizer
  | VConfig model_config

type_synonym kwargs = "(string \<times> pyval) list"

definition kw_get :: "kwargs \<Rightarrow> string \<Rightarrow> pyval" where
  \<comment> \<open>\<open>kwargs.get(k)\<close>, also \<open>kwargs.get(k, None)\<close>\<close>
  "kw_get kw k = (case map_of kw k of None \<Rightarrow> VNone | Some v \<Rightarrow> v)"

definition kw_pop :: "kwargs \<Rightarrow> string \<Rightarrow> pyval \<Rightarrow> pyval \<times> kwargs" where
  \<comment> \<open>\<open>kwargs.pop(k, d)\<close>: the value and the dictionary without the key\<close>
  "kw_pop kw k d =
     (case map_of kw k of None \<Rightarrow> (d, kw)
      | Some v \<Rightarrow> (v, filter (\<lambda>p. fst p \<noteq> k) kw))"

definition kw_set :: "kwargs \<Rightarrow> string \<Rightarrow> pyval \<Rightarrow> kwargs" where
  \<comment> \<open>\<open>kwargs[k] = v\<close>\<close>
  "kw_set kw k v = (k, v) # filter (\<lambda>p. fst p \<noteq> k) kw"

fun truthy :: "pyval \<Rightarrow> bool" where
  "truthy VNone = False"
| "truthy (VBool b) = b"
| "truthy (VInt i) = (i \<noteq> 0)"
| "truthy (VStr s) = (s \<noteq> [])"
| "truthy (VTokenizer t) = True"
| "truthy (VConfig c) = True"

fun py_gt_0 :: "pyval \<Rightarrow> error + bool" where
  \<comment> \<open>\<open>v > 0\<close>: defined on numbers (a bool is an int), a TypeError otherwise\<close>
  "py_gt_0 (VInt i) = Inr (0 < i)"
| "py_gt_0 (VBool b) = Inr b"
| "py_gt_0 v = Inl TypeError"

text \<open>
  The entry \<open>torch_dtype\<close> of a checkpoint's \<open>config.json\<close> as
  \<open>PretrainedConfig.get_config_dict\<close> returns it: missing (or null), a string, or a dtype.
\<close>

datatype config_entry = Absent | Str string | Torch Dtype

subsection \<open>The environment and the process state\<close>

text \<open>
  \<open>env\<close> holds what the code reads from outside and never writes: environment variables,
  the file system as the respective call sees it (\<open>path_exists\<close> is consulted before a
  download, \<open>path_isdir\<close> after it), the installed packages, the library versions
  (major, minor), the two checkpoint providers and the constructors of the model-runtime
  library. A provider or constructor that raises is \<open>None\<close>. The helpers
  \<open>get_max_model_len\<close> and \<open>set_generation_config\<close> live in \<open>swift/llm/utils/utils.py\<close>,
  which is not among the source files; they are parameters here, the second one by its
  effect on the model's generation config.
\<close>

record env =
  USE_HF :: bool
  use_torchacc :: bool
  is_torch_npu_available :: bool
  path_exists :: "string \<Rightarrow> bool"
  path_isdir :: "string \<Rightarrow> bool"
  expanduser :: "string \<Rightarrow> string"
  hf_snapshot_download :: "string \<Rightarrow> string \<Rightarrow> string list option \<Rightarrow> string option"
  snapshot_download :: "string \<Rightarrow> string \<Rightarrow> string list option \<Rightarrow> string option"
  require_version_ok :: "string \<Rightarrow> bool"
  importable :: "string \<Rightarrow> bool"
  torch_version :: "nat \<times> nat"
  transformers_version :: "nat \<times> nat"
  get_config_dict :: "string \<Rightarrow> config_entry option"
  AutoConfig_from_pretrained :: "string \<Rightarrow> model_config option"
  AutoTokenizer_from_pretrained :: "string \<Rightarrow> tokenizer option"
  automodel_from_pretrained ::
    "string \<Rightarrow> string \<Rightarrow> model_config \<Rightarrow> Dtype option \<Rightarrow> model_kwargs \<Rightarrow> model option"
  generation_config_json :: "string \<Rightarrow> generation_config option"
  get_max_model_len :: "model_config \<Rightarrow> int option"
  set_generation_config :: "generation_config option \<Rightarrow> generation_config \<Rightarrow> generation_config"

definition version_less :: "nat \<times> nat \<Rightarrow> nat \<times> nat \<Rightarrow> bool" where
  "version_less a b = (fst a < fst b \<or> (fst a = fst b \<and> snd a < snd b))"

text \<open>
  A checkpoint function: the library's own, or the lambda of
  \<open>fix_gradient_checkpointing_warning\<close>, which holds a default for \<open>use_reentrant\<close> and
  the function it forwards to.
\<close>

datatype checkpoint_fn = Checkpoint | Lambda bool checkpoint_fn

text \<open>The forward method of \<open>QuantLinear\<close>: the library's, or \<open>_new_forward\<close>.\<close>

datatype forward_fn = Forward | New_forward

record world =
  downloads :: "(string \<times> string \<times> string) list"
  models_loaded :: nat
  torch_utils_checkpoint_checkpoint :: checkpoint_fn
  torch_utils_checkpoint_old_checkpoint :: "checkpoint_fn option"
  transformers_modeling_utils_checkpoint :: "checkpoint_fn option"
  QuantLinear_forward :: forward_fn
  QuantLinear_old_forward :: "forward_fn option"

subsection \<open>The registry\<close>

type_synonym GetModelTokenizerFunction =
  "env \<Rightarrow> string \<Rightarrow> Dtype option \<Rightarrow> model_kwargs \<Rightarrow> bool \<Rightarrow> kwargs \<Rightarrow> world
     \<Rightarrow> (error + model option \<times> tokenizer) \<times> world"

record model_info =
  info_model_id_or_path :: "string option"
  info_lora_target_modules :: "string list option"
  info_template :: string
  info_requires :: "string list"
  info_torch_dtype :: "Dtype option"
  info_ignore_file_pattern :: "string list option"
  info_hf_model_id :: "string option"
  info_revision :: string
  info_eos_token :: "string option"
  info_kwargs :: kwargs
  get_function :: GetModelTokenizerFunction

type_synonym MODEL_MAPPING = "string \<Rightarrow> model_info option"

definition partial :: "GetModelTokenizerFunction \<Rightarrow> kwargs \<Rightarrow> GetModelTokenizerFunction" where
  \<comment> \<open>\<open>functools.partial(f, **function_kwargs)\<close>: keywords of the call override bound ones\<close>
  "partial f function_kwargs =
     (\<lambda>e model_dir torch_dtype mk load_model kw. f e model_dir torch_dtype mk load_model (kw @ function_kwargs))"

text \<open>The parameters of \<open>register_model\<close>, the registry apart.\<close>

record register_args =
  reg_model_type :: string
  reg_model_id_or_path :: "string option"
  reg_lora_target_modules :: "string list option"
  reg_template :: string
  reg_get_function :: "GetModelTokenizerFunction option"
  reg_requires :: "string list option"
  reg_torch_dtype :: "Dtype option"
  reg_hf_model_id :: "string option"
  reg_revision :: "string option"
  reg_ignore_file_pattern :: "string list option"
  reg_function_kwargs :: "kwargs option"
  reg_exists_ok :: bool
  reg_eos_token :: "string option"
  reg_kwargs :: kwargs

definition bind_function :: "kwargs \<Rightarrow> GetModelTokenizerFunction \<Rightarrow> GetModelTokenizerFunction" where
  \<comment> \<open>\<open>if len(function_kwargs) > 0: get_function = partial(get_function, **function_kwargs)\<close>\<close>
  "bind_function function_kwargs g = (if length function_kwargs > 0 then partial g function_kwargs else g)"

definition make_model_info :: "register_args \<Rightarrow> GetModelTokenizerFunction \<Rightarrow> model_info" where
  "make_model_info a g =
     \<lparr> info_model_id_or_path = reg_model_id_or_path a,
       info_lora_target_modules = reg_lora_target_modules a,
       info_template = reg_template a,
       info_requires = (case reg_requires a of None \<Rightarrow> [] | Some r \<Rightarrow> r),
       info_torch_dtype = reg_torch_dtype a,
       info_ignore_file_pattern = reg_ignore_file_pattern a,
       info_hf_model_id = reg_hf_model_id a,
       info_revision = (case reg_revision a of None \<Rightarrow> ''master'' | Some r \<Rightarrow> r),
       info_eos_token = reg_eos_token a,
       info_kwargs = reg_kwargs a,
       get_function =
         bind_function (case reg_function_kwargs a of None \<Rightarrow> [] | Some fk \<Rightarrow> fk) g \<rparr>"

definition register_model_decorator ::
  "register_args \<Rightarrow> GetModelTokenizerFunction \<Rightarrow> MODEL_MAPPING
     \<Rightarrow> MODEL_MAPPING \<times> GetModelTokenizerFunction" where
  \<comment> \<open>the inner \<open>_register_model\<close>: applied to a procedure, it registers the procedure in
     the registry of that moment and returns the procedure it was given\<close>
  "register_model_decorator a g M = (M(reg_model_type a \<mapsto> make_model_info a g), g)"


subsection \<open>Monkey-patches\<close>

fun call_checkpoint :: "checkpoint_fn \<Rightarrow> bool option \<Rightarrow> bool option" where
  \<comment> \<open>the \<open>use_reentrant\<close> keyword the library's checkpoint function receives when the
     function is called with the given keyword (\<open>None\<close>: not passed)\<close>
  "call_checkpoint Checkpoint r = r"
| "call_checkpoint (Lambda use_reentrant old) r =
     call_checkpoint old (Some (case r of None \<Rightarrow> use_reentrant | Some v \<Rightarrow> v))"

fun wrappers :: "checkpoint_fn \<Rightarrow> nat" where
  \<comment> \<open>how many lambdas stand between a caller and the library's checkpoint function\<close>
  "wrappers Checkpoint = 0"
| "wrappers (Lambda use_reentrant old) = Suc (wrappers old)"

definition fix_gradient_checkpointing_warning :: "env \<Rightarrow> world \<Rightarrow> world" where
  "fix_gradient_checkpointing_warning e w =
     (if version_less (torch_version e) (2, 0) then w
      else
        let use_reentrant = version_less (torch_version e) (2, 1);
            old_checkpoint = torch_utils_checkpoint_checkpoint w;
            w1 = (if torch_utils_checkpoint_old_checkpoint w = None
                  then w\<lparr>torch_utils_checkpoint_old_checkpoint := Some old_checkpoint,
                         torch_utils_checkpoint_checkpoint := Lambda use_reentrant old_checkpoint\<rparr>
                  else w)
        in if transformers_modeling_utils_checkpoint w1 \<noteq> None
           then w1\<lparr>transformers_modeling_utils_checkpoint := Some (Lambda use_reentrant old_checkpoint)\<rparr>
           else w1)"

record quant_linear =
  training :: bool
  autogptq_cuda_available :: bool

fun call_forward ::
  "nat \<Rightarrow> world \<Rightarrow> forward_fn \<Rightarrow> quant_linear \<Rightarrow> (bool \<times> quant_linear) option" where
  \<comment> \<open>calling a forward method on a layer: the value of \<open>autogptq_cuda_available\<close> the
     library's forward runs under, and the layer afterwards. \<open>_new_forward\<close> looks
     \<open>__old_forward\<close> up on the class at the time of the call. The first argument bounds the
     depth of the calls; \<open>None\<close> is a RecursionError or an AttributeError.\<close>
  "call_forward 0 w f q = None"
| "call_forward (Suc n) w Forward q = Some (autogptq_cuda_available q, q)"
| "call_forward (Suc n) w New_forward q =
     (case QuantLinear_old_forward w of
        None \<Rightarrow> None
      | Some old \<Rightarrow>
          if \<not> training q \<or> \<not> autogptq_cuda_available q then call_forward n w old q
          else (case call_forward n w old (q\<lparr>autogptq_cuda_available := False\<rparr>) of
                  None \<Rightarrow> None
                | Some (seen, q') \<Rightarrow> Some (seen, q'\<lparr>autogptq_cuda_available := True\<rparr>)))"

definition check_awq_ext :: "env \<Rightarrow> error option" where
  \<comment> \<open>\<open>_check_awq_ext\<close>: both imports are in one \<open>try\<close>, an ImportError is raised anew\<close>
  "check_awq_ext e =
     (if importable e ''awq.utils.packing_utils'' \<and> importable e ''awq_ext'' then None
      else Some ImportError_awq_ext)"

definition check_gptq_model ::
  "env \<Rightarrow> int \<Rightarrow> model_kwargs \<Rightarrow> world \<Rightarrow> (error + model_kwargs) \<times> world" where
  \<comment> \<open>\<open>_check_gptq_model\<close>\<close>
  "check_gptq_model e bits mk w =
     (if quantization_config mk \<noteq> None then (Inl AssertionError_quantization_config, w)
      else
        let mk' = mk\<lparr>quantization_config :=
                       Some (GPTQConfig bits
                         (if \<not> version_less (transformers_version e) (4, 35)
                          then use_exllama_False else disable_exllama_True))\<rparr>
        in if \<not> importable e ''auto_gptq.nn_modules.qlinear.qlinear_cuda_old''
           then (Inl (ModuleNotFoundError ''auto_gptq''), w)
           else
             let old_forward = QuantLinear_forward w
             in if QuantLinear_old_forward w = None
                then (Inr mk', w\<lparr>QuantLinear_old_forward := Some old_forward,
                                  QuantLinear_forward := New_forward\<rparr>)
                else (Inr mk', w))"

subsection \<open>The loader \<open>get_model_tokenizer_from_repo\<close>\<close>

fun py_int :: "pyval \<Rightarrow> int" where
  "py_int (VInt i) = i"
| "py_int (VBool b) = (if b then 1 else 0)"
| "py_int v = 0"

definition check_aqlm :: "env \<Rightarrow> error option" where
  \<comment> \<open>\<open>require_version('transformers>=4.39'); import aqlm\<close>\<close>
  "check_aqlm e =
     (if \<not> require_version_ok e ''transformers>=4.39''
      then Some (RequireVersionError ''transformers>=4.39'')
      else if \<not> importable e ''aqlm'' then Some (ModuleNotFoundError ''aqlm'')
      else None)"

definition load_config_tokenizer ::
  "env \<Rightarrow> string \<Rightarrow> Dtype option \<Rightarrow> kwargs \<Rightarrow> error + model_config \<times> tokenizer" where
  \<comment> \<open>the configuration object and the tokenizer of \<open>get_model_tokenizer_from_repo\<close>: each
     is the one passed in, or the library's; then the dtype and the eos token are set\<close>
  "load_config_tokenizer e dir torch_dtype kw =
     (case (case kw_get kw ''model_config'' of
              VConfig c \<Rightarrow> Inr c
            | VNone \<Rightarrow> (case AutoConfig_from_pretrained e dir of
                          None \<Rightarrow> Inl (OSError dir) | Some c \<Rightarrow> Inr c)
            | v \<Rightarrow> Inl (AttributeError ''torch_dtype'')) of
        Inl err \<Rightarrow> Inl err
      | Inr c \<Rightarrow>
          let c' = (case torch_dtype of
                      None \<Rightarrow> c | Some d \<Rightarrow> c\<lparr>config_torch_dtype := Some d\<rparr>)
          in (case (case kw_get kw ''tokenizer'' of
                      VTokenizer t \<Rightarrow> Inr t
                    | VNone \<Rightarrow> (case AutoTokenizer_from_pretrained e dir of
                                  None \<Rightarrow> Inl (OSError dir) | Some t \<Rightarrow> Inr t)
                    | v \<Rightarrow> Inl (AttributeError ''eos_token'')) of
                Inl err \<Rightarrow> Inl err
              | Inr t \<Rightarrow>
                  (case kw_get kw ''eos_token'' of
                     VNone \<Rightarrow> Inr (c', t)
                   | VStr s \<Rightarrow> Inr (c', t\<lparr>eos_token := Some s\<rparr>)
                   | v \<Rightarrow> Inl TypeError)))"

definition get_model_tokenizer_from_repo :: GetModelTokenizerFunction where
  "get_model_tokenizer_from_repo e dir torch_dtype mk load_model kwargs w =
     (let (v_awq, kw1) = kw_pop kwargs ''is_awq'' (VBool False);
          (v_aqlm, kw2) = kw_pop kw1 ''is_aqlm'' (VBool False);
          (v_gptq_bits, kw3) = kw_pop kw2 ''gptq_bits'' (VInt 0);
          (v_training, kw4) = kw_pop kw3 ''is_training'' (VBool False)
      in case (if truthy v_awq \<and> truthy v_training then check_awq_ext e else None) of
           Some err \<Rightarrow> (Inl err, w)
         | None \<Rightarrow>
        (case py_gt_0 v_gptq_bits of
           Inl err \<Rightarrow> (Inl err, w)
         | Inr gptq \<Rightarrow>
        (case (if gptq \<and> truthy v_training then check_gptq_model e (py_int v_gptq_bits) mk w
               else (Inr mk, w)) of
           (Inl err, w1) \<Rightarrow> (Inl err, w1)
         | (Inr mk1, w1) \<Rightarrow>
        (case (if truthy v_aqlm \<and> truthy v_training then check_aqlm e else None) of
           Some err \<Rightarrow> (Inl err, w1)
         | None \<Rightarrow>
        (case load_config_tokenizer e dir torch_dtype kw4 of
           Inl err \<Rightarrow> (Inl err, w1)
         | Inr (c, t) \<Rightarrow>
             if \<not> load_model then (Inr (None, t), w1)
             else
               (case automodel_from_pretrained e
                       (case kw_get kw4 ''automodel_class'' of
                          VStr cls \<Rightarrow> cls | v \<Rightarrow> ''AutoModelForCausalLM'')
                       dir c torch_dtype mk1 of
                  None \<Rightarrow> (Inl (OSError dir), w1)
                | Some m \<Rightarrow>
                    let m1 = (if truthy v_awq then m\<lparr>is_awq := Some True\<rparr> else m);
                        m2 = (if gptq then m1\<lparr>gptq_bits := Some (py_int v_gptq_bits)\<rparr> else m1)
                    in (Inr (Some m2, t), w1\<lparr>models_loaded := Suc (models_loaded w1)\<rparr>)))))))"

subsection \<open>The loaders \<open>get_model_tokenizer_with_flash_attn\<close> and \<open>get_model_tokenizer_llama2\<close>\<close>

definition get_model_tokenizer_with_flash_attn :: GetModelTokenizerFunction where
  \<comment> \<open>\<open>model_config\<close> is a parameter of its own in the source; here it travels in the
     keywords, and the call of \<open>get_model_tokenizer_from_repo\<close> sets it anew\<close>
  "get_model_tokenizer_with_flash_attn e dir torch_dtype mk load_model kwargs w =
     (case (case kw_get kwargs ''model_config'' of
              VConfig c \<Rightarrow> Inr c
            | VNone \<Rightarrow> (case AutoConfig_from_pretrained e dir of
                          None \<Rightarrow> Inl (OSError dir) | Some c \<Rightarrow> Inr c)
            | v \<Rightarrow> Inl (AttributeError ''_attn_implementation'')) of
        Inl err \<Rightarrow> (Inl err, w)
      | Inr c \<Rightarrow>
          let (use_flash_attn, kw1) = kw_pop kwargs ''use_flash_attn'' (VBool False);
              c' = (if \<not> version_less (transformers_version e) (4, 36)
                    then (if truthy use_flash_attn
                          then c\<lparr>attn_implementation := Some ''flash_attention_2''\<rparr> else c)
                    else c\<lparr>flash_attn_2_enabled := Some (truthy use_flash_attn)\<rparr>)
          in get_model_tokenizer_from_repo e dir torch_dtype mk load_model
               (kw_set kw1 ''model_config'' (VConfig c')) w)"

definition get_model_tokenizer_llama2 :: GetModelTokenizerFunction where
  \<comment> \<open>a \<open>model_config\<close> among the keywords is passed twice to the next loader: a TypeError\<close>
  "get_model_tokenizer_llama2 e dir torch_dtype mk load_model kwargs w =
     (case AutoConfig_from_pretrained e dir of
        None \<Rightarrow> (Inl (OSError dir), w)
      | Some c \<Rightarrow>
          if map_of kwargs ''model_config'' \<noteq> None then (Inl TypeError, w)
          else get_model_tokenizer_with_flash_attn e dir torch_dtype mk load_model
                 (kw_set kwargs ''model_config'' (VConfig (c\<lparr>pretraining_tp := Some 1\<rparr>))) w)"

subsection \<open>Resolution: \<open>get_model_tokenizer\<close>\<close>

definition safe_snapshot_download ::
  "env \<Rightarrow> MODEL_MAPPING \<Rightarrow> string \<Rightarrow> string option \<Rightarrow> string option \<Rightarrow> string option
     \<Rightarrow> world \<Rightarrow> (error + string) \<times> world" where
  \<comment> \<open>the arguments after the registry: \<open>model_type\<close>, \<open>model_id_or_path\<close>, \<open>revision\<close> and the
     keyword \<open>model_dir\<close>. Every call of a provider is recorded in \<open>downloads\<close> as
     (provider, identifier, revision). The lock \<open>safe_ddp_context\<close> is not modelled.\<close>
  "safe_snapshot_download e M mtype model_id_or_path revision kw_model_dir w =
     (case M mtype of
        None \<Rightarrow> (Inl (KeyError mtype), w)
      | Some info \<Rightarrow>
          let id_or_path =
                (case model_id_or_path of
                   Some p \<Rightarrow> Some p
                 | None \<Rightarrow>
                     (case kw_model_dir of
                        Some d \<Rightarrow> Some d
                      | None \<Rightarrow> if USE_HF e then info_hf_model_id info
                                else info_model_id_or_path info))
          in (case id_or_path of
                None \<Rightarrow> (Inl TypeError, w)
              | Some p \<Rightarrow>
                  if \<not> path_exists e p then
                    (if USE_HF e then
                       (let rev = (case revision of None \<Rightarrow> ''main'' | Some r \<Rightarrow> r);
                            w' = w\<lparr>downloads := downloads w @ [(''hf'', p, rev)]\<rparr>
                        in case hf_snapshot_download e p rev (info_ignore_file_pattern info) of
                             None \<Rightarrow> (Inl (HubError p), w')
                           | Some d \<Rightarrow>
                               if path_isdir e (expanduser e d) then (Inr (expanduser e d), w')
                               else (Inl (AssertionError_model_dir (expanduser e d)), w'))
                     else
                       (let rev = (case revision of None \<Rightarrow> info_revision info | Some r \<Rightarrow> r);
                            w' = w\<lparr>downloads := downloads w @ [(''ms'', p, rev)]\<rparr>
                        in case snapshot_download e p rev (info_ignore_file_pattern info) of
                             None \<Rightarrow> (Inl (HubError p), w')
                           | Some d \<Rightarrow>
                               if path_isdir e (expanduser e d) then (Inr (expanduser e d), w')
                               else (Inl (AssertionError_model_dir (expanduser e d)), w')))
                  else if path_isdir e (expanduser e p) then (Inr (expanduser e p), w)
                  else (Inl (AssertionError_model_dir (expanduser e p)), w)))"

definition torch_attr :: "string \<Rightarrow> Dtype option" where
  \<comment> \<open>\<open>eval(f'torch.{name}')\<close> on the names of the dtypes of this model, with the aliases
     of the library; another name is an AttributeError\<close>
  "torch_attr name =
     (if name = ''float32'' \<or> name = ''float'' then Some float32
      else if name = ''float16'' \<or> name = ''half'' then Some float16
      else if name = ''bfloat16'' then Some bfloat16
      else if name = ''float64'' \<or> name = ''double'' then Some float64
      else None)"

definition config_dtype :: "config_entry \<Rightarrow> error + Dtype option" where
  \<comment> \<open>\<open>torch_dtype\<close> of \<open>get_torch_dtype\<close> before the last test: the entry of the
     configuration, a string evaluated to the dtype it names\<close>
  "config_dtype entry =
     (case entry of
        Absent \<Rightarrow> Inr None
      | Torch d \<Rightarrow> Inr (Some d)
      | Str name \<Rightarrow> (case torch_attr name of
                       None \<Rightarrow> Inl (AttributeError name)
                     | Some d \<Rightarrow> Inr (Some d)))"

definition get_torch_dtype :: "env \<Rightarrow> string \<Rightarrow> error + Dtype option" where
  "get_torch_dtype e dir =
     (case get_config_dict e dir of
        None \<Rightarrow> Inl (OSError dir)
      | Some entry \<Rightarrow>
          (case config_dtype entry of
             Inl err \<Rightarrow> Inl err
           | Inr torch_dtype \<Rightarrow>
               if torch_dtype = Some float32 then Inr (Some float16) else Inr torch_dtype))"

fun check_requires :: "env \<Rightarrow> string list \<Rightarrow> error option" where
  \<comment> \<open>\<open>for require in requires: require_version(require)\<close>\<close>
  "check_requires e [] = None"
| "check_requires e (require # requires) =
     (if require_version_ok e require then check_requires e requires
      else Some (RequireVersionError require))"

definition resolve_torch_dtype ::
  "env \<Rightarrow> model_info \<Rightarrow> string \<Rightarrow> Dtype option \<Rightarrow> model_kwargs
     \<Rightarrow> error + Dtype option \<times> model_kwargs" where
  \<comment> \<open>the precision block of \<open>get_model_tokenizer\<close>: the dtype handed to the loader, and
     \<open>model_kwargs\<close> with the compute dtype of a 4-bit configuration filled in\<close>
  "resolve_torch_dtype e info dir torch_dtype mk =
     (case info_torch_dtype info of
        Some model_torch_dtype \<Rightarrow>
          (case torch_dtype of
             None \<Rightarrow> Inr (Some model_torch_dtype, mk)
           | Some d \<Rightarrow> if d = model_torch_dtype then Inr (Some d, mk)
                       else Inl (AssertionError_please_use model_torch_dtype))
      | None \<Rightarrow>
          (case torch_dtype of
             Some d \<Rightarrow> Inr (Some d, mk)
           | None \<Rightarrow>
               (case get_torch_dtype e dir of
                  Inl err \<Rightarrow> Inl err
                | Inr d \<Rightarrow>
                    (case quantization_config mk of
                       Some (BitsAndBytesConfig b) \<Rightarrow>
                         if bnb_4bit_compute_dtype b = None
                         then Inr (d, mk\<lparr>quantization_config :=
                                     Some (BitsAndBytesConfig (b\<lparr>bnb_4bit_compute_dtype := d\<rparr>))\<rparr>)
                         else Inr (d, mk)
                     | _ \<Rightarrow> Inr (d, mk)))))"

definition fix_transformers_upgrade :: "env \<Rightarrow> model \<Rightarrow> model" where
  "fix_transformers_upgrade e m =
     (if \<not> version_less (transformers_version e) (4, 35) \<and> set_gradient_checkpointing_takes_value m
      then m\<lparr>set_gradient_checkpointing_takes_value := False\<rparr> else m)"

definition fix_generation_config :: "env \<Rightarrow> string \<Rightarrow> model \<Rightarrow> model" where
  \<comment> \<open>the last block of \<open>get_model_tokenizer\<close>: the generation config is read from
     \<open>generation_config.json\<close> when the model has none, then "fix llama2 bug"\<close>
  "fix_generation_config e dir m =
     (let m1 = (case generation_config m of
                  None \<Rightarrow> (case generation_config_json e dir of
                             None \<Rightarrow> m | Some g \<Rightarrow> m\<lparr>generation_config := Some g\<rparr>)
                | Some g \<Rightarrow> m)
      in case generation_config m1 of
           None \<Rightarrow> m1
         | Some g \<Rightarrow>
             if float_gt_0 (temperature g) \<and> float_lt_1 (temperature g) \<and> do_sample g = False
             then m1\<lparr>generation_config := Some (g\<lparr>do_sample := True\<rparr>)\<rparr>
             else m1)"

definition post_load ::
  "env \<Rightarrow> string \<Rightarrow> string \<Rightarrow> model option \<times> tokenizer \<Rightarrow> world
     \<Rightarrow> (error + model option \<times> tokenizer) \<times> world" where
  \<comment> \<open>what \<open>get_model_tokenizer\<close> does with the pair the loader returned\<close>
  "post_load e mtype dir mt w =
     (let m1 = (case fst mt of
                  None \<Rightarrow> None
                | Some m \<Rightarrow>
                    Some (fix_transformers_upgrade e
                      (m\<lparr>max_model_len := get_max_model_len e (config m),
                         model_type := Some mtype, model_dir := Some dir\<rparr>)));
          w' = fix_gradient_checkpointing_warning e w;
          t1 = (snd mt)\<lparr>tok_model_type := Some mtype, tok_model_dir := Some dir\<rparr>
      in if eos_token t1 = None then (Inl AssertionError_eos_token, w')
         else
           let t2 = (if pad_token t1 = None then t1\<lparr>pad_token := eos_token t1\<rparr> else t1)
           in (Inr (map_option (fix_generation_config e dir) m1, t2), w'))"

fun py_str_opt :: "pyval \<Rightarrow> error + string option" where
  "py_str_opt VNone = Inr None"
| "py_str_opt (VStr s) = Inr (Some s)"
| "py_str_opt v = Inl TypeError"

definition default_model_kwargs :: "env \<Rightarrow> model_kwargs option \<Rightarrow> model_kwargs" where
  \<comment> \<open>\<open>model_kwargs\<close> as the loader sees it: \<open>{}\<close> for \<open>None\<close>, and \<open>device_map = 'auto'\<close>
     when the key is missing and torchacc is off\<close>
  "default_model_kwargs e model_kwargs =
     (let mk = (case model_kwargs of
                  None \<Rightarrow> \<lparr>device_map = None, low_cpu_mem_usage = None, quantization_config = None\<rparr>
                | Some mk \<Rightarrow> mk)
      in if device_map mk = None \<and> \<not> use_torchacc e then mk\<lparr>device_map := Some ''auto''\<rparr> else mk)"

definition loader_kwargs :: "model_info \<Rightarrow> kwargs \<Rightarrow> kwargs" where
  \<comment> \<open>\<open>kwargs['eos_token'] = model_info['eos_token']\<close>, and \<open>is_training\<close> defaults to False\<close>
  "loader_kwargs info kw =
     (let kw1 = kw_set kw ''eos_token'' (case info_eos_token info of None \<Rightarrow> VNone | Some s \<Rightarrow> VStr s)
      in if map_of kw1 ''is_training'' = None then kw_set kw1 ''is_training'' (VBool False) else kw1)"

definition resolve_and_load ::
  "env \<Rightarrow> MODEL_MAPPING \<Rightarrow> string \<Rightarrow> Dtype option \<Rightarrow> model_kwargs option \<Rightarrow> bool
     \<Rightarrow> string option \<Rightarrow> string option \<Rightarrow> kwargs \<Rightarrow> world
     \<Rightarrow> (error + string \<times> model option \<times> tokenizer) \<times> world" where
  \<comment> \<open>\<open>get_model_tokenizer\<close> up to the return of the loader: the checkpoint directory and
     the pair the loader returned. The arguments after the registry are in the order of
     the source: \<open>model_type\<close>, \<open>torch_dtype\<close>, \<open>model_kwargs\<close>, \<open>load_model\<close>,
     \<open>model_id_or_path\<close>, \<open>revision\<close>, \<open>**kwargs\<close>.\<close>
  "resolve_and_load e M mtype torch_dtype model_kwargs load_model model_id_or_path revision kwargs w =
     (let (v_dir, kw1) = kw_pop kwargs ''model_dir'' VNone
      in case py_str_opt v_dir of
           Inl err \<Rightarrow> (Inl err, w)
         | Inr kw_model_dir \<Rightarrow>
        (case safe_snapshot_download e M mtype model_id_or_path revision kw_model_dir w of
           (Inl err, w1) \<Rightarrow> (Inl err, w1)
         | (Inr dir, w1) \<Rightarrow>
        (case M mtype of
           None \<Rightarrow> (Inl (KeyError mtype), w1)
         | Some info \<Rightarrow>
        (case check_requires e (info_requires info) of
           Some err \<Rightarrow> (Inl err, w1)
         | None \<Rightarrow>
        (case resolve_torch_dtype e info dir torch_dtype (default_model_kwargs e model_kwargs) of
           Inl err \<Rightarrow> (Inl err, w1)
         | Inr (dtype, mk) \<Rightarrow>
        (case get_function info e dir dtype mk load_model (loader_kwargs info kw1) w1 of
           (Inl err, w2) \<Rightarrow> (Inl err, w2)
         | (Inr mt, w2) \<Rightarrow> (Inr (dir, mt), w2)))))))"

definition get_model_tokenizer ::
  "env \<Rightarrow> MODEL_MAPPING \<Rightarrow> string \<Rightarrow> Dtype option \<Rightarrow> model_kwargs option \<Rightarrow> bool
     \<Rightarrow> string option \<Rightarrow> string option \<Rightarrow> kwargs \<Rightarrow> world
     \<Rightarrow> (error + model option \<times> tokenizer) \<times> world" where
  "get_model_tokenizer e M mtype torch_dtype model_kwargs load_model model_id_or_path revision kwargs w =
     (case resolve_and_load e M mtype torch_dtype model_kwargs load_model model_id_or_path revision kwargs w of
        (Inl err, w1) \<Rightarrow> (Inl err, w1)
      | (Inr (dir, mt), w2) \<Rightarrow> post_load e mtype dir mt w2)"

subsection \<open>Inference set-up: \<open>prepare_model_template\<close>\<close>

record InferArguments =
  args_model_type :: string
  args_torch_dtype :: "Dtype option"
  args_load_in_8bit :: bool
  args_load_in_4bit :: bool
  args_bnb_4bit_compute_dtype :: "Dtype option"
  args_bnb_4bit_quant_type :: string
  args_bnb_4bit_use_double_quant :: bool
  args_use_flash_attn :: "bool option"
  args_sft_type :: string
  args_ckpt_dir :: "string option"
  args_model_id_or_path :: "string option"
  args_model_revision :: "string option"
  args_max_new_tokens :: "int option"
  args_temperature :: pyfloat
  args_top_k :: "int option"
  args_top_p :: pyfloat
  args_do_sample :: bool
  args_repetition_penalty :: pyfloat
  args_num_beams :: int
  args_max_model_len :: "int option"

definition infer_model_kwargs :: "env \<Rightarrow> InferArguments \<Rightarrow> string option \<Rightarrow> model_kwargs" where
  \<comment> \<open>\<open>model_kwargs\<close> as \<open>prepare_model_template\<close> builds it from \<open>device_map\<close> and the
     quantization arguments\<close>
  "infer_model_kwargs e a dev_map =
     (let dm = (case dev_map of
                  Some d \<Rightarrow> d
                | None \<Rightarrow> if is_torch_npu_available e then ''npu:0'' else ''auto'')
      in \<lparr> device_map = Some dm,
           low_cpu_mem_usage = (if dm = ''auto'' then Some True else None),
           quantization_config =
             (if args_load_in_8bit a \<or> args_load_in_4bit a
              then Some (BitsAndBytesConfig
                     \<lparr> load_in_8bit = args_load_in_8bit a,
                       load_in_4bit = args_load_in_4bit a,
                       bnb_4bit_compute_dtype = args_bnb_4bit_compute_dtype a,
                       bnb_4bit_quant_type = args_bnb_4bit_quant_type a,
                       bnb_4bit_use_double_quant = args_bnb_4bit_use_double_quant a \<rparr>)
              else None) \<rparr>)"

definition infer_kwargs :: "InferArguments \<Rightarrow> string option \<Rightarrow> kwargs" where
  \<comment> \<open>the keywords \<open>use_flash_attn\<close> and \<open>automodel_class\<close>, each passed only when given\<close>
  "infer_kwargs a automodel_class =
     (case args_use_flash_attn a of None \<Rightarrow> [] | Some b \<Rightarrow> [(''use_flash_attn'', VBool b)]) @
     (case automodel_class of None \<Rightarrow> [] | Some cls \<Rightarrow> [(''automodel_class'', VStr cls)])"

definition infer_model_id_or_path :: "InferArguments \<Rightarrow> string option" where
  "infer_model_id_or_path a =
     (if args_sft_type a = ''full'' \<and> args_ckpt_dir a \<noteq> None then args_ckpt_dir a
      else args_model_id_or_path a)"

definition token_id :: "tokenizer \<Rightarrow> string option \<Rightarrow> int option" where
  \<comment> \<open>\<open>tokenizer.pad_token_id\<close> and \<open>tokenizer.eos_token_id\<close>\<close>
  "token_id t tok = (case tok of None \<Rightarrow> None | Some s \<Rightarrow> vocab t s)"

definition infer_generation_config :: "InferArguments \<Rightarrow> tokenizer \<Rightarrow> generation_config" where
  "infer_generation_config a t =
     \<lparr> max_new_tokens = args_max_new_tokens a,
       temperature = args_temperature a,
       top_k = args_top_k a,
       top_p = args_top_p a,
       do_sample = args_do_sample a,
       repetition_penalty = args_repetition_penalty a,
       num_beams = args_num_beams a,
       pad_token_id = token_id t (pad_token t),
       eos_token_id = token_id t (eos_token t) \<rparr>"

definition apply_max_model_len :: "int option \<Rightarrow> model \<Rightarrow> error + model" where
  \<comment> \<open>the block on \<open>model.max_model_len\<close> and \<open>args.max_model_len\<close>\<close>
  "apply_max_model_len args_len m =
     (case max_model_len m of
        None \<Rightarrow> Inr (m\<lparr>max_model_len := args_len\<rparr>)
      | Some model_len \<Rightarrow>
          (case args_len of
             None \<Rightarrow> Inr m
           | Some n \<Rightarrow>
               if n \<le> model_len then Inr (m\<lparr>max_model_len := Some n\<rparr>)
               else Inl (ValueError_max_model_len n model_len)))"

definition prepare_model_template ::
  "env \<Rightarrow> MODEL_MAPPING \<Rightarrow> InferArguments \<Rightarrow> string option \<Rightarrow> string option \<Rightarrow> world
     \<Rightarrow> (error + model \<times> tokenizer) \<times> world" where
  \<comment> \<open>\<open>prepare_model_template\<close> with the keywords \<open>device_map\<close> and \<open>automodel_class\<close>, up to
     and including the block on the maximum length; the result is the model and the
     tokenizer at that point. The source goes on to attach an adapter
     (\<open>Swift.from_pretrained\<close>) and to build the prompt template (\<open>get_template\<close>): both are
     other components and are not modelled.\<close>
  "prepare_model_template e M a dev_map automodel_class w =
     (case get_model_tokenizer e M (args_model_type a) (args_torch_dtype a)
             (Some (infer_model_kwargs e a dev_map)) True
             (infer_model_id_or_path a) (args_model_revision a)
             (infer_kwargs a automodel_class) w of
        (Inl err, w1) \<Rightarrow> (Inl err, w1)
      | (Inr (None, t), w1) \<Rightarrow> (Inl (AttributeError ''config''), w1)
      | (Inr (Some m, t), w1) \<Rightarrow>
          let m1 = m\<lparr>generation_config :=
                       Some (set_generation_config e (generation_config m)
                               (infer_generation_config a t))\<rparr>
          in (case apply_max_model_len (args_max_model_len a) m1 of
                Inl err \<Rightarrow> (Inl err, w1)
              | Inr m2 \<Rightarrow> (Inr (m2, t), w1)))"

subsection \<open>Example inputs\<close>

text \<open>
  Two registrations of the source, \<open>llama2-7b-chat\<close> (on \<open>get_model_tokenizer_llama2\<close>)
  and \<open>yi-6b-chat-awq\<close> (on \<open>get_model_tokenizer_with_flash_attn\<close>), an environment in which
  nothing is on disk yet, every requirement is met and no optional extension is installed,
  and the state of a fresh process.
\<close>

definition llama2_7b_chat :: register_args where
  "llama2_7b_chat =
     \<lparr> reg_model_type = ''llama2-7b-chat'',
       reg_model_id_or_path = Some ''modelscope/Llama-2-7b-chat-ms'',
       reg_lora_target_modules = Some [''q_proj'', ''k_proj'', ''v_proj''],
       reg_template = ''llama'',
       reg_get_function = None,
       reg_requires = None,
       reg_torch_dtype = None,
       reg_hf_model_id = Some ''meta-llama/Llama-2-7b-chat-hf'',
       reg_revision = None,
       reg_ignore_file_pattern = Some [''.+'' @ [CHR 0x5C] @ ''.bin$''],
       reg_function_kwargs = None,
       reg_exists_ok = False,
       reg_eos_token = None,
       reg_kwargs = [(''support_flash_attn'', VBool True), (''support_vllm'', VBool True)] \<rparr>"

definition yi_6b_chat_awq :: register_args where
  "yi_6b_chat_awq =
     \<lparr> reg_model_type = ''yi-6b-chat-awq'',
       reg_model_id_or_path = Some ''01ai/Yi-6B-Chat-4bits'',
       reg_lora_target_modules = Some [''q_proj'', ''k_proj'', ''v_proj''],
       reg_template = ''yi'',
       reg_get_function = None,
       reg_requires = Some [''autoawq''],
       reg_torch_dtype = Some float16,
       reg_hf_model_id = Some ''01-ai/Yi-6B-Chat-4bits'',
       reg_revision = None,
       reg_ignore_file_pattern = None,
       reg_function_kwargs = Some [(''is_awq'', VBool True)],
       reg_exists_ok = False,
       reg_eos_token = Some ''<|im_end|>'',
       reg_kwargs = [(''support_flash_attn'', VBool True), (''support_vllm'', VBool True)] \<rparr>"

definition example_mapping :: MODEL_MAPPING where
  "example_mapping =
     fst (register_model_decorator yi_6b_chat_awq get_model_tokenizer_with_flash_attn
       (fst (register_model_decorator llama2_7b_chat get_model_tokenizer_llama2 Map.empty)))"

definition example_tokenizer :: tokenizer where
  "example_tokenizer =
     \<lparr> eos_token = Some ''</s>'', pad_token = None,
       vocab = (\<lambda>s. if s = ''</s>'' then Some 2 else if s = ''<|im_end|>'' then Some 7 else None),
       tok_model_type = None, tok_model_dir = None \<rparr>"

definition example_config :: model_config where
  "example_config =
     \<lparr> config_torch_dtype = Some float32, attn_implementation = None,
       flash_attn_2_enabled = None, pretraining_tp = None,
       config_attrs = [(''max_position_embeddings'', 4096)] \<rparr>"

definition example_generation_config :: generation_config where
  "example_generation_config =
     \<lparr> max_new_tokens = None, temperature = Finite (6 / 10), top_k = None,
       top_p = Finite (9 / 10), do_sample = False, repetition_penalty = Finite 1,
       num_beams = 1, pad_token_id = Some 0, eos_token_id = Some 2 \<rparr>"

definition example_model :: "model_config \<Rightarrow> model" where
  "example_model c =
     \<lparr> config = c, max_model_len = None, model_type = None, model_dir = None,
       generation_config = None, is_awq = None, gptq_bits = None,
       set_gradient_checkpointing_takes_value = False \<rparr>"

definition example_env :: env where
  "example_env =
     \<lparr> USE_HF = False, use_torchacc = False, is_torch_npu_available = False,
       path_exists = (\<lambda>p. False),
       path_isdir = (\<lambda>p. take 7 p = ''/cache/''),
       expanduser = (\<lambda>p. p),
       hf_snapshot_download = (\<lambda>name rev ignore. Some (''/cache/'' @ name)),
       snapshot_download = (\<lambda>name rev ignore. Some (''/cache/'' @ name)),
       require_version_ok = (\<lambda>r. True),
       importable = (\<lambda>m. False),
       torch_version = (2, 1),
       transformers_version = (4, 39),
       get_config_dict = (\<lambda>dir. Some (Str ''float32'')),
       AutoConfig_from_pretrained = (\<lambda>dir. Some example_config),
       AutoTokenizer_from_pretrained = (\<lambda>dir. Some example_tokenizer),
       automodel_from_pretrained = (\<lambda>cls dir c dtype mk. Some (example_model c)),
       generation_config_json = (\<lambda>dir. Some example_generation_config),
       get_max_model_len = (\<lambda>c. map_of (config_attrs c) ''max_position_embeddings''),
       set_generation_config = (\<lambda>old new. new) \<rparr>"

definition example_world :: world where
  "example_world =
     \<lparr> downloads = [], models_loaded = 0,
       torch_utils_checkpoint_checkpoint = Checkpoint,
       torch_utils_checkpoint_old_checkpoint = None,
       transformers_modeling_utils_checkpoint = Some Checkpoint,
       QuantLinear_forward = Forward,
       QuantLinear_old_forward = None \<rparr>"

definition env_without_autoawq :: env where
  \<comment> \<open>the example environment, with the package \<open>autoawq\<close> not installed\<close>
  "env_without_autoawq = example_env\<lparr>require_version_ok := (\<lambda>r. r \<noteq> ''autoawq'')\<rparr>"

text \<open>
  Arguments of an inference run on \<open>llama2-7b-chat\<close>, the model, the tokenizer and the
  state that resolving it in the example environment yields, and an environment in which
  \<open>get_max_model_len\<close> finds no limit.
\<close>

definition example_args :: InferArguments where
  "example_args =
     \<lparr> args_model_type = ''llama2-7b-chat'', args_torch_dtype = None,
       args_load_in_8bit = False, args_load_in_4bit = False,
       args_bnb_4bit_compute_dtype = None, args_bnb_4bit_quant_type = ''nf4'',
       args_bnb_4bit_use_double_quant = True, args_use_flash_attn = None,
       args_sft_type = ''lora'', args_ckpt_dir = None, args_model_id_or_path = None,
       args_model_revision = None, args_max_new_tokens = Some 2048,
       args_temperature = Finite (3 / 10), args_top_k = Some 20, args_top_p = Finite (7 / 10),
       args_do_sample = True, args_repetition_penalty = Finite 1, args_num_beams = 1,
       args_max_model_len = Some 2048 \<rparr>"

definition env_without_max_len :: env where
  "env_without_max_len = example_env\<lparr>get_max_model_len := (\<lambda>c. None)\<rparr>"

definition example_loaded_model :: model where
  "example_loaded_model =
     \<lparr> config = example_config\<lparr>config_torch_dtype := Some float16, pretraining_tp := Some 1\<rparr>,
       max_model_len = Some 4096, model_type = Some ''llama2-7b-chat'',
       model_dir = Some ''/cache/modelscope/Llama-2-7b-chat-ms'',
       generation_config = Some (example_generation_config\<lparr>do_sample := True\<rparr>),
       is_awq = None, gptq_bits = None, set_gradient_checkpointing_takes_value = False \<rparr>"

definition example_loaded_tokenizer :: tokenizer where
  "example_loaded_tokenizer =
     example_tokenizer\<lparr>pad_token := Some ''</s>'', tok_model_type := Some ''llama2-7b-chat'',
       tok_model_dir := Some ''/cache/modelscope/Llama-2-7b-chat-ms''\<rparr>"

definition example_loaded_world :: world where
  "example_loaded_world =
     example_world\<lparr>downloads := [(''ms'', ''modelscope/Llama-2-7b-chat-ms'', ''master'')],
       models_loaded := 1,
       torch_utils_checkpoint_checkpoint := Lambda False Checkpoint,
       torch_utils_checkpoint_old_checkpoint := Some Checkpoint,
       transformers_modeling_utils_checkpoint := Some (Lambda False Checkpoint)\<rparr>"

section \<open>Properties\<close>

lemmas example_defs = example_mapping_def llama2_7b_chat_def yi_6b_chat_awq_def example_env_def
  example_world_def example_tokenizer_def example_config_def example_model_def
  example_generation_config_def env_without_autoawq_def register_model_decorator_def
  make_model_info_def bind_function_def partial_def

lemmas pipeline_defs = get_model_tokenizer_def resolve_and_load_def safe_snapshot_download_def
  post_load_def resolve_torch_dtype_def get_torch_dtype_def config_dtype_def torch_attr_def default_model_kwargs_def
  loader_kwargs_def kw_pop_def kw_get_def kw_set_def fix_generation_config_def
  fix_transformers_upgrade_def fix_gradient_checkpointing_warning_def version_less_def
  get_model_tokenizer_llama2_def get_model_tokenizer_with_flash_attn_def
  get_model_tokenizer_from_repo_def load_config_tokenizer_def check_awq_ext_def
  check_gptq_model_def check_aqlm_def

lemmas infer_defs = example_args_def env_without_max_len_def example_loaded_model_def
  example_loaded_tokenizer_def example_loaded_world_def infer_model_kwargs_def infer_kwargs_def
  infer_model_id_or_path_def

subsection \<open>Registration\<close>



subsection \<open>Requirements and the checkpoint\<close>

lemma check_requires_Some:
  "check_requires e rs = Some err \<Longrightarrow>
     \<exists>r. r \<in> set rs \<and> \<not> require_version_ok e r \<and> err = RequireVersionError r"
  by (induction rs) (auto split: if_splits)

lemma check_requires_unmet:
  "r \<in> set rs \<Longrightarrow> \<not> require_version_ok e r \<Longrightarrow> check_requires e rs \<noteq> None"
  by (induction rs) auto

lemma safe_snapshot_download_world:
  "safe_snapshot_download e M k mid rv kmd w = (r, w') \<Longrightarrow> w'\<lparr>downloads := downloads w\<rparr> = w"
  by (auto simp: safe_snapshot_download_def Let_def split: option.splits if_splits)

lemma resolve_and_load_bad_model_dir:
  "py_str_opt (fst (kw_pop kw ''model_dir'' VNone)) = Inl err \<Longrightarrow>
     resolve_and_load e M mtype torch_dtype mk load_model mid rv kw w = (Inl err, w)"
  by (simp add: resolve_and_load_def case_prod_beta)

lemma resolve_and_load_no_checkpoint:
  "py_str_opt (fst (kw_pop kw ''model_dir'' VNone)) = Inr kmd \<Longrightarrow>
   safe_snapshot_download e M mtype mid rv kmd w = (Inl err, w1) \<Longrightarrow>
     resolve_and_load e M mtype torch_dtype mk load_model mid rv kw w = (Inl err, w1)"
  by (simp add: resolve_and_load_def case_prod_beta)

lemma resolve_and_load_stages:
  "py_str_opt (fst (kw_pop kw ''model_dir'' VNone)) = Inr kmd \<Longrightarrow>
   safe_snapshot_download e M mtype mid rv kmd w = (Inr dir, w1) \<Longrightarrow>
   M mtype = Some info \<Longrightarrow>
     resolve_and_load e M mtype torch_dtype mk load_model mid rv kw w =
       (case check_requires e (info_requires info) of
          Some err \<Rightarrow> (Inl err, w1)
        | None \<Rightarrow>
            (case resolve_torch_dtype e info dir torch_dtype (default_model_kwargs e mk) of
               Inl err \<Rightarrow> (Inl err, w1)
             | Inr (dtype, mk') \<Rightarrow>
                 (case get_function info e dir dtype mk' load_model
                         (loader_kwargs info (snd (kw_pop kw ''model_dir'' VNone))) w1 of
                    (Inl err, w2) \<Rightarrow> (Inl err, w2)
                  | (Inr mt, w2) \<Rightarrow> (Inr (dir, mt), w2))))"
  by (simp add: resolve_and_load_def case_prod_beta)

text \<open>
  C1, as the code has it. \<open>get_model_tokenizer\<close> materializes the checkpoint first and
  verifies the requirements afterwards, before the loader runs. When a requirement of the
  entry is unmet, resolution fails, and the state differs from the initial one in the
  recorded downloads at most: no loader has run and no model is loaded. When the
  checkpoint could be materialized, the error names an unmet requirement and the state
  is the one materialization left.
\<close>

theorem requires_checked_after_materialization:
  assumes info: "M mtype = Some info"
    and unmet: "r \<in> set (info_requires info)" "\<not> require_version_ok e r"
  shows "\<exists>err w'.
           get_model_tokenizer e M mtype torch_dtype mk load_model mid rv kw w = (Inl err, w') \<and>
           w'\<lparr>downloads := downloads w\<rparr> = w \<and>
           (\<forall>kmd dir w1.
              py_str_opt (fst (kw_pop kw ''model_dir'' VNone)) = Inr kmd \<and>
              safe_snapshot_download e M mtype mid rv kmd w = (Inr dir, w1) \<longrightarrow>
                w' = w1 \<and>
                (\<exists>r'. r' \<in> set (info_requires info) \<and> \<not> require_version_ok e r' \<and>
                      err = RequireVersionError r'))"
proof -
  from check_requires_unmet[OF unmet] obtain err0
    where err0: "check_requires e (info_requires info) = Some err0" by auto
  from check_requires_Some[OF err0] obtain r'
    where r': "r' \<in> set (info_requires info)" "\<not> require_version_ok e r'"
      "err0 = RequireVersionError r'" by auto
  show ?thesis
  proof (cases "py_str_opt (fst (kw_pop kw ''model_dir'' VNone))")
    case (Inl x)
    from resolve_and_load_bad_model_dir[OF Inl] Inl show ?thesis
      by (simp add: get_model_tokenizer_def)
  next
    case (Inr kmd)
    note kmd = this
    obtain x w1 where s: "safe_snapshot_download e M mtype mid rv kmd w = (x, w1)"
      by (cases "safe_snapshot_download e M mtype mid rv kmd w")
    from safe_snapshot_download_world[OF s] have w1: "w1\<lparr>downloads := downloads w\<rparr> = w" .
    show ?thesis
    proof (cases x)
      case (Inl a)
      with s have s': "safe_snapshot_download e M mtype mid rv kmd w = (Inl a, w1)" by simp
      from resolve_and_load_no_checkpoint[OF kmd s'] kmd s' w1
      show ?thesis
        by (simp add: get_model_tokenizer_def)
    next
      case (Inr dir)
      with s have s': "safe_snapshot_download e M mtype mid rv kmd w = (Inr dir, w1)" by simp
      from resolve_and_load_stages[OF kmd s' info] kmd s' w1 err0 r'
      show ?thesis
        by (auto simp: get_model_tokenizer_def)
    qed
  qed
qed

theorem requires_checked_after_materialization_witness:
  "example_mapping ''yi-6b-chat-awq'' =
     Some (make_model_info yi_6b_chat_awq get_model_tokenizer_with_flash_attn) \<and>
   ''autoawq'' \<in> set (info_requires (make_model_info yi_6b_chat_awq get_model_tokenizer_with_flash_attn)) \<and>
   \<not> require_version_ok env_without_autoawq ''autoawq'' \<and>
   (\<exists>err w'.
      get_model_tokenizer env_without_autoawq example_mapping ''yi-6b-chat-awq''
        None None True None None [] example_world = (Inl err, w') \<and>
      w'\<lparr>downloads := downloads example_world\<rparr> = example_world \<and>
      (\<forall>kmd dir w1.
         py_str_opt (fst (kw_pop [] ''model_dir'' VNone)) = Inr kmd \<and>
         safe_snapshot_download env_without_autoawq example_mapping ''yi-6b-chat-awq''
           None None kmd example_world = (Inr dir, w1) \<longrightarrow>
           w' = w1 \<and>
           (\<exists>r'. r' \<in> set (info_requires
                     (make_model_info yi_6b_chat_awq get_model_tokenizer_with_flash_attn)) \<and>
                 \<not> require_version_ok env_without_autoawq r' \<and>
                 err = RequireVersionError r')))"
proof -
  have h1: "example_mapping ''yi-6b-chat-awq'' =
      Some (make_model_info yi_6b_chat_awq get_model_tokenizer_with_flash_attn)"
    by (simp add: example_mapping_def register_model_decorator_def yi_6b_chat_awq_def)
  have h2: "''autoawq'' \<in>
      set (info_requires (make_model_info yi_6b_chat_awq get_model_tokenizer_with_flash_attn))"
    by (simp add: make_model_info_def yi_6b_chat_awq_def)
  have h3: "\<not> require_version_ok env_without_autoawq ''autoawq''"
    by (simp add: env_without_autoawq_def)
  note concl = requires_checked_after_materialization[where M = example_mapping
      and mtype = "''yi-6b-chat-awq''" and e = env_without_autoawq and r = "''autoawq''"
      and torch_dtype = None and mk = None and load_model = True and mid = None and rv = None
      and kw = "[]" and w = example_world, OF h1 h2 h3]
  show ?thesis by (rule conjI[OF h1 conjI[OF h2 conjI[OF h3 concl]]])
qed

text \<open>
  C1 as stated fails: with \<open>autoawq\<close> missing, resolving \<open>yi-6b-chat-awq\<close> reports the unmet
  requirement only after the checkpoint has been downloaded from the hub.
\<close>

theorem requires_checked_before_download_counterexample:
  "get_model_tokenizer env_without_autoawq example_mapping ''yi-6b-chat-awq''
     None None True None None [] example_world =
   (Inl (RequireVersionError ''autoawq''),
    example_world\<lparr>downloads := [(''ms'', ''01ai/Yi-6B-Chat-4bits'', ''master'')]\<rparr>)"
  by (simp add: example_defs pipeline_defs)

subsection \<open>Precision\<close>

lemma resolve_torch_dtype_declared:
  "info_torch_dtype info = Some d \<Longrightarrow>
     resolve_torch_dtype e info dir torch_dtype mk =
       (if torch_dtype = None \<or> torch_dtype = Some d then Inr (Some d, mk)
        else Inl (AssertionError_please_use d))"
  by (auto simp: resolve_torch_dtype_def split: option.splits)



lemma resolve_and_load_world:
  assumes "M mtype = Some info"
    and "\<And>dir. \<exists>err. resolve_torch_dtype e info dir torch_dtype (default_model_kwargs e mk) = Inl err"
  shows "\<exists>err w'. resolve_and_load e M mtype torch_dtype mk load_model mid rv kw w = (Inl err, w') \<and>
           w'\<lparr>downloads := downloads w\<rparr> = w"
proof (cases "py_str_opt (fst (kw_pop kw ''model_dir'' VNone))")
  case (Inl x)
  from resolve_and_load_bad_model_dir[OF Inl] show ?thesis by simp
next
  case (Inr kmd)
  obtain x w1 where s: "safe_snapshot_download e M mtype mid rv kmd w = (x, w1)"
    by (cases "safe_snapshot_download e M mtype mid rv kmd w")
  from safe_snapshot_download_world[OF s] have w1: "w1\<lparr>downloads := downloads w\<rparr> = w" .
  show ?thesis
  proof (cases x)
    case (Inl a)
    with s have s': "safe_snapshot_download e M mtype mid rv kmd w = (Inl a, w1)" by simp
    from resolve_and_load_no_checkpoint[OF Inr s'] w1 show ?thesis by simp
  next
    case (Inr dir)
    with s have s': "safe_snapshot_download e M mtype mid rv kmd w = (Inr dir, w1)" by simp
    from assms(2)[of dir] obtain err where
      "resolve_torch_dtype e info dir torch_dtype (default_model_kwargs e mk) = Inl err" by blast
    with resolve_and_load_stages[OF \<open>py_str_opt (fst (kw_pop kw ''model_dir'' VNone)) = Inr kmd\<close> s' assms(1)] w1
    show ?thesis by (simp split: option.splits)
  qed
qed

lemma resolve_and_load_dtype_cong:
  assumes info: "M mtype = Some info"
    and eq: "\<And>dir. resolve_torch_dtype e info dir td1 (default_model_kwargs e mk) =
                resolve_torch_dtype e info dir td2 (default_model_kwargs e mk)"
  shows "resolve_and_load e M mtype td1 mk load_model mid rv kw w =
         resolve_and_load e M mtype td2 mk load_model mid rv kw w"
proof (cases "py_str_opt (fst (kw_pop kw ''model_dir'' VNone))")
  case (Inl x)
  then show ?thesis by (simp add: resolve_and_load_bad_model_dir)
next
  case (Inr kmd)
  obtain x w1 where s: "safe_snapshot_download e M mtype mid rv kmd w = (x, w1)"
    by (cases "safe_snapshot_download e M mtype mid rv kmd w")
  show ?thesis
  proof (cases x)
    case (Inl a)
    with s have s': "safe_snapshot_download e M mtype mid rv kmd w = (Inl a, w1)" by simp
    from resolve_and_load_no_checkpoint[OF Inr s'] show ?thesis by simp
  next
    case (Inr dir)
    with s have s': "safe_snapshot_download e M mtype mid rv kmd w = (Inr dir, w1)" by simp
    note st = resolve_and_load_stages[OF \<open>py_str_opt (fst (kw_pop kw ''model_dir'' VNone)) = Inr kmd\<close> s' info]
    show ?thesis by (simp add: st eq cong: option.case_cong)
  qed
qed





text \<open>
  C2. For an entry that declares a dtype, a call with a different dtype fails and leaves
  the state as it was, the recorded downloads apart: no loader has run and no model is
  loaded. When the checkpoint could be materialized and the requirements are met, the
  error is the failed assertion \<open>please use\<close> naming the declared dtype. A call without
  a dtype behaves as a call with the declared one, which is what the loader is given.
\<close>

theorem declared_dtype_is_enforced:
  assumes info: "M mtype = Some info"
    and declared: "info_torch_dtype info = Some d"
    and conflict: "d' \<noteq> d"
  shows "(\<exists>err w'.
            get_model_tokenizer e M mtype (Some d') mk load_model mid rv kw w = (Inl err, w') \<and>
            w'\<lparr>downloads := downloads w\<rparr> = w \<and>
            (\<forall>kmd dir w1.
               py_str_opt (fst (kw_pop kw ''model_dir'' VNone)) = Inr kmd \<and>
               safe_snapshot_download e M mtype mid rv kmd w = (Inr dir, w1) \<and>
               check_requires e (info_requires info) = None \<longrightarrow>
                 err = AssertionError_please_use d \<and> w' = w1)) \<and>
         get_model_tokenizer e M mtype None mk load_model mid rv kw w =
           get_model_tokenizer e M mtype (Some d) mk load_model mid rv kw w \<and>
         resolve_torch_dtype e info dir None mk0 = Inr (Some d, mk0)"
proof (intro conjI)
  have bad: "\<And>dir. \<exists>err. resolve_torch_dtype e info dir (Some d') (default_model_kwargs e mk) = Inl err"
    using declared conflict by (simp add: resolve_torch_dtype_declared)
  from resolve_and_load_world[where M = M and mtype = mtype, OF info bad] obtain err w' where
    r: "resolve_and_load e M mtype (Some d') mk load_model mid rv kw w = (Inl err, w')"
    and w': "w'\<lparr>downloads := downloads w\<rparr> = w" by blast
  have "\<forall>kmd dir w1.
               py_str_opt (fst (kw_pop kw ''model_dir'' VNone)) = Inr kmd \<and>
               safe_snapshot_download e M mtype mid rv kmd w = (Inr dir, w1) \<and>
               check_requires e (info_requires info) = None \<longrightarrow>
                 err = AssertionError_please_use d \<and> w' = w1"
  proof (intro allI impI, elim conjE)
    fix kmd dir w1
    assume a: "py_str_opt (fst (kw_pop kw ''model_dir'' VNone)) = Inr kmd"
      "safe_snapshot_download e M mtype mid rv kmd w = (Inr dir, w1)"
      "check_requires e (info_requires info) = None"
    from resolve_and_load_stages[OF a(1) a(2) info, of "Some d'" mk load_model] a(3) r declared conflict
    show "err = AssertionError_please_use d \<and> w' = w1"
      by (simp add: resolve_torch_dtype_declared)
  qed
  with r w' show "\<exists>err w'.
            get_model_tokenizer e M mtype (Some d') mk load_model mid rv kw w = (Inl err, w') \<and>
            w'\<lparr>downloads := downloads w\<rparr> = w \<and>
            (\<forall>kmd dir w1.
               py_str_opt (fst (kw_pop kw ''model_dir'' VNone)) = Inr kmd \<and>
               safe_snapshot_download e M mtype mid rv kmd w = (Inr dir, w1) \<and>
               check_requires e (info_requires info) = None \<longrightarrow>
                 err = AssertionError_please_use d \<and> w' = w1)"
    by (simp add: get_model_tokenizer_def)
next
  have "resolve_and_load e M mtype None mk load_model mid rv kw w =
        resolve_and_load e M mtype (Some d) mk load_model mid rv kw w"
    by (rule resolve_and_load_dtype_cong[where M = M and mtype = mtype and info = info, OF info])
       (simp add: resolve_torch_dtype_declared[OF declared])
  then show "get_model_tokenizer e M mtype None mk load_model mid rv kw w =
           get_model_tokenizer e M mtype (Some d) mk load_model mid rv kw w"
    by (simp add: get_model_tokenizer_def)
next
  show "resolve_torch_dtype e info dir None mk0 = Inr (Some d, mk0)"
    using declared by (simp add: resolve_torch_dtype_declared)
qed

theorem declared_dtype_is_enforced_witness:
  "example_mapping ''yi-6b-chat-awq'' =
     Some (make_model_info yi_6b_chat_awq get_model_tokenizer_with_flash_attn) \<and>
   info_torch_dtype (make_model_info yi_6b_chat_awq get_model_tokenizer_with_flash_attn) = Some float16 \<and>
   bfloat16 \<noteq> float16 \<and>
   get_model_tokenizer example_env example_mapping ''yi-6b-chat-awq'' (Some bfloat16) None True
     None None [] example_world =
     (Inl (AssertionError_please_use float16),
      example_world\<lparr>downloads := [(''ms'', ''01ai/Yi-6B-Chat-4bits'', ''master'')]\<rparr>) \<and>
   get_model_tokenizer example_env example_mapping ''yi-6b-chat-awq'' None None True
     None None [] example_world =
   get_model_tokenizer example_env example_mapping ''yi-6b-chat-awq'' (Some float16) None True
     None None [] example_world"
proof -
  have h1: "example_mapping ''yi-6b-chat-awq'' =
      Some (make_model_info yi_6b_chat_awq get_model_tokenizer_with_flash_attn)"
    by (simp add: example_mapping_def register_model_decorator_def yi_6b_chat_awq_def)
  have h2: "info_torch_dtype (make_model_info yi_6b_chat_awq get_model_tokenizer_with_flash_attn) =
      Some float16"
    by (simp add: make_model_info_def yi_6b_chat_awq_def)
  have h3: "bfloat16 \<noteq> float16" by simp
  note concl = declared_dtype_is_enforced[where M = example_mapping
      and mtype = "''yi-6b-chat-awq''" and e = example_env and mk = None and load_model = True
      and mid = None and rv = None and kw = "[]" and w = example_world, OF h1 h2 h3]
  have k: "py_str_opt (fst (kw_pop [] ''model_dir'' VNone)) = Inr None"
    by (simp add: kw_pop_def)
  have s: "safe_snapshot_download example_env example_mapping ''yi-6b-chat-awq'' None None None
      example_world =
      (Inr ''/cache/01ai/Yi-6B-Chat-4bits'',
       example_world\<lparr>downloads := [(''ms'', ''01ai/Yi-6B-Chat-4bits'', ''master'')]\<rparr>)"
    by (simp add: safe_snapshot_download_def example_defs)
  have r: "check_requires example_env
      (info_requires (make_model_info yi_6b_chat_awq get_model_tokenizer_with_flash_attn)) = None"
    by (simp add: example_defs)
  from concl[THEN conjunct1] obtain err w' where
    res: "get_model_tokenizer example_env example_mapping ''yi-6b-chat-awq'' (Some bfloat16) None True
       None None [] example_world = (Inl err, w')"
    and rest: "\<forall>kmd dir w1.
       py_str_opt (fst (kw_pop [] ''model_dir'' VNone)) = Inr kmd \<and>
       safe_snapshot_download example_env example_mapping ''yi-6b-chat-awq'' None None kmd
         example_world = (Inr dir, w1) \<and>
       check_requires example_env
         (info_requires (make_model_info yi_6b_chat_awq get_model_tokenizer_with_flash_attn)) = None \<longrightarrow>
       err = AssertionError_please_use float16 \<and> w' = w1"
    by (elim exE conjE)
  from rest[rule_format, OF conjI[OF k conjI[OF s r]]] res have first:
    "get_model_tokenizer example_env example_mapping ''yi-6b-chat-awq'' (Some bfloat16) None True
       None None [] example_world =
     (Inl (AssertionError_please_use float16),
      example_world\<lparr>downloads := [(''ms'', ''01ai/Yi-6B-Chat-4bits'', ''master'')]\<rparr>)"
    by simp
  from concl[THEN conjunct2, THEN conjunct1] have second:
    "get_model_tokenizer example_env example_mapping ''yi-6b-chat-awq'' None None True
       None None [] example_world =
     get_model_tokenizer example_env example_mapping ''yi-6b-chat-awq'' (Some float16) None True
       None None [] example_world" .
  show ?thesis by (rule conjI[OF h1 conjI[OF h2 conjI[OF h3 conjI[OF first second]]]])
qed



subsection \<open>The tokenizer\<close>




lemma post_load_no_eos:
  "eos_token t0 = None \<Longrightarrow>
     post_load e mtype dir (m0, t0) w2 = (Inl AssertionError_eos_token, fix_gradient_checkpointing_warning e w2)"
  by (simp add: post_load_def Let_def)













subsection \<open>The generation config\<close>

text \<open>
  C9. When the loader returned a model and a tokenizer with an eos token, resolution
  succeeds, and the generation config of the model returned is the one the model came
  with (the one of \<open>generation_config.json\<close> when it came with none) with \<open>do_sample\<close> set
  if the temperature is strictly between 0 and 1 and \<open>do_sample\<close> was off, and unchanged
  in every other case.
\<close>

theorem sampling_enabled_for_fractional_temperature:
  assumes r: "resolve_and_load e M mtype torch_dtype mk load_model mid rv kw w =
                (Inr (dir, Some m0, t0), w2)"
    and eos: "eos_token t0 \<noteq> None"
  shows "\<exists>m t. get_model_tokenizer e M mtype torch_dtype mk load_model mid rv kw w =
                 (Inr (Some m, t), fix_gradient_checkpointing_warning e w2) \<and>
               generation_config m =
                 map_option
                   (\<lambda>g. if float_gt_0 (temperature g) \<and> float_lt_1 (temperature g) \<and> \<not> do_sample g
                        then g\<lparr>do_sample := True\<rparr> else g)
                   (case generation_config m0 of
                      None \<Rightarrow> generation_config_json e dir
                    | Some g \<Rightarrow> Some g)"
  using r eos
  by (auto simp: get_model_tokenizer_def post_load_def fix_generation_config_def
        fix_transformers_upgrade_def Let_def split: option.splits)

theorem sampling_enabled_for_fractional_temperature_witness:
  "eos_token example_tokenizer \<noteq> None \<and>
   (\<exists>m t. get_model_tokenizer example_env example_mapping ''llama2-7b-chat'' None None True
             None None [] example_world =
           (Inr (Some m, t),
            fix_gradient_checkpointing_warning example_env
              (example_world\<lparr>downloads := [(''ms'', ''modelscope/Llama-2-7b-chat-ms'', ''master'')],
                 models_loaded := 1\<rparr>)) \<and>
          generation_config m =
            map_option
              (\<lambda>g. if float_gt_0 (temperature g) \<and> float_lt_1 (temperature g) \<and> \<not> do_sample g
                   then g\<lparr>do_sample := True\<rparr> else g)
              (case generation_config
                      (example_model (example_config\<lparr>config_torch_dtype := Some float16,
                         pretraining_tp := Some 1\<rparr>)) of
                 None \<Rightarrow> generation_config_json example_env ''/cache/modelscope/Llama-2-7b-chat-ms''
               | Some g \<Rightarrow> Some g)) \<and>
   map_option
     (\<lambda>g. if float_gt_0 (temperature g) \<and> float_lt_1 (temperature g) \<and> \<not> do_sample g
          then g\<lparr>do_sample := True\<rparr> else g)
     (generation_config_json example_env ''/cache/modelscope/Llama-2-7b-chat-ms'') =
   Some (example_generation_config\<lparr>do_sample := True\<rparr>)"
proof -
  have r: "resolve_and_load example_env example_mapping ''llama2-7b-chat'' None None True
      None None [] example_world =
      (Inr (''/cache/modelscope/Llama-2-7b-chat-ms'',
            Some (example_model (example_config\<lparr>config_torch_dtype := Some float16,
                    pretraining_tp := Some 1\<rparr>)),
            example_tokenizer),
       example_world\<lparr>downloads := [(''ms'', ''modelscope/Llama-2-7b-chat-ms'', ''master'')],
         models_loaded := 1\<rparr>)"
    by (simp add: example_defs pipeline_defs)
  have e: "eos_token example_tokenizer \<noteq> None"
    by (simp add: example_tokenizer_def)
  have v: "map_option
     (\<lambda>g. if float_gt_0 (temperature g) \<and> float_lt_1 (temperature g) \<and> \<not> do_sample g
          then g\<lparr>do_sample := True\<rparr> else g)
     (generation_config_json example_env ''/cache/modelscope/Llama-2-7b-chat-ms'') =
   Some (example_generation_config\<lparr>do_sample := True\<rparr>)"
    by (simp add: example_env_def example_generation_config_def)
  note concl = sampling_enabled_for_fractional_temperature[OF r e]
  show ?thesis by (rule conjI[OF e conjI[OF concl v]])
qed

subsection \<open>The maximum length\<close>

text \<open>
  Resolving \<open>llama2-7b-chat\<close> with no dtype on a checkpoint whose configuration says
  \<open>float32\<close>: the model is loaded in \<open>float16\<close>, the pad token is the eos token, sampling
  is switched on, and the maximum length is the one of the configuration.
\<close>

lemma example_resolution:
  "get_model_tokenizer example_env example_mapping ''llama2-7b-chat'' None
     (Some (infer_model_kwargs example_env example_args None)) True None None [] example_world =
   (Inr (Some example_loaded_model, example_loaded_tokenizer), example_loaded_world)"
  by (simp add: example_defs pipeline_defs infer_defs)

text \<open>
  C5. In \<open>prepare_model_template\<close>, when the resolved model has a maximum length of its
  own and \<open>args.max_model_len\<close> is given: a value up to the model's limit becomes the
  maximum length of the model returned; a larger one is a ValueError.
\<close>

theorem max_model_len_override_bounded:
  assumes g: "get_model_tokenizer e M (args_model_type a) (args_torch_dtype a)
                (Some (infer_model_kwargs e a dev_map)) True (infer_model_id_or_path a)
                (args_model_revision a) (infer_kwargs a automodel_class) w =
              (Inr (Some m, t), w1)"
    and limit: "max_model_len m = Some model_len"
    and override: "args_max_model_len a = Some n"
  shows "if n \<le> model_len
         then \<exists>m'. prepare_model_template e M a dev_map automodel_class w = (Inr (m', t), w1) \<and>
                   max_model_len m' = Some n
         else prepare_model_template e M a dev_map automodel_class w =
                (Inl (ValueError_max_model_len n model_len), w1)"
  using g limit override
  by (simp add: prepare_model_template_def apply_max_model_len_def Let_def)

theorem max_model_len_override_bounded_witness:
  "(\<exists>m'. prepare_model_template example_env example_mapping example_args None None example_world =
           (Inr (m', example_loaded_tokenizer), example_loaded_world) \<and>
         max_model_len m' = Some 2048) \<and>
   prepare_model_template example_env example_mapping
     (example_args\<lparr>args_max_model_len := Some 8192\<rparr>) None None example_world =
     (Inl (ValueError_max_model_len 8192 4096), example_loaded_world)"
proof -
  have g1: "get_model_tokenizer example_env example_mapping (args_model_type example_args)
      (args_torch_dtype example_args) (Some (infer_model_kwargs example_env example_args None)) True
      (infer_model_id_or_path example_args) (args_model_revision example_args)
      (infer_kwargs example_args None) example_world =
      (Inr (Some example_loaded_model, example_loaded_tokenizer), example_loaded_world)"
    by (simp add: example_defs pipeline_defs infer_defs)
  have g2: "get_model_tokenizer example_env example_mapping
      (args_model_type (example_args\<lparr>args_max_model_len := Some 8192\<rparr>))
      (args_torch_dtype (example_args\<lparr>args_max_model_len := Some 8192\<rparr>))
      (Some (infer_model_kwargs example_env (example_args\<lparr>args_max_model_len := Some 8192\<rparr>) None))
      True (infer_model_id_or_path (example_args\<lparr>args_max_model_len := Some 8192\<rparr>))
      (args_model_revision (example_args\<lparr>args_max_model_len := Some 8192\<rparr>))
      (infer_kwargs (example_args\<lparr>args_max_model_len := Some 8192\<rparr>) None) example_world =
      (Inr (Some example_loaded_model, example_loaded_tokenizer), example_loaded_world)"
    by (simp add: example_defs pipeline_defs infer_defs)
  have l: "max_model_len example_loaded_model = Some 4096"
    by (simp add: example_loaded_model_def)
  have o1: "args_max_model_len example_args = Some 2048"
    by (simp add: example_args_def)
  have o2: "args_max_model_len (example_args\<lparr>args_max_model_len := Some 8192\<rparr>) = Some 8192"
    by simp
  from max_model_len_override_bounded[OF g1 l o1]
  have a: "\<exists>m'. prepare_model_template example_env example_mapping example_args None None example_world =
           (Inr (m', example_loaded_tokenizer), example_loaded_world) \<and>
         max_model_len m' = Some 2048"
    by simp
  from max_model_len_override_bounded[OF g2 l o2]
  have b: "prepare_model_template example_env example_mapping
     (example_args\<lparr>args_max_model_len := Some 8192\<rparr>) None None example_world =
     (Inl (ValueError_max_model_len 8192 4096), example_loaded_world)"
    by simp
  show ?thesis by (rule conjI[OF a b])
qed

text \<open>
  C10. When the resolved model has no maximum length of its own, \<open>args.max_model_len\<close>
  becomes the maximum length of the model returned, whatever its value, and no error is
  raised; the block on the maximum length raises for a model with a limit of its own
  only.
\<close>

theorem max_model_len_override_unbounded:
  assumes g: "get_model_tokenizer e M (args_model_type a) (args_torch_dtype a)
                (Some (infer_model_kwargs e a dev_map)) True (infer_model_id_or_path a)
                (args_model_revision a) (infer_kwargs a automodel_class) w =
              (Inr (Some m, t), w1)"
    and nolimit: "max_model_len m = None"
  shows "(\<exists>m'. prepare_model_template e M a dev_map automodel_class w = (Inr (m', t), w1) \<and>
               max_model_len m' = args_max_model_len a) \<and>
         (\<forall>len m0 err. apply_max_model_len len m0 = Inl err \<longrightarrow> max_model_len m0 \<noteq> None)"
proof
  show "\<exists>m'. prepare_model_template e M a dev_map automodel_class w = (Inr (m', t), w1) \<and>
              max_model_len m' = args_max_model_len a"
    using g nolimit
    by (simp add: prepare_model_template_def apply_max_model_len_def Let_def)
next
  show "\<forall>len m0 err. apply_max_model_len len m0 = Inl err \<longrightarrow> max_model_len m0 \<noteq> None"
    by (auto simp: apply_max_model_len_def split: option.splits)
qed

theorem max_model_len_override_unbounded_witness:
  "\<exists>m'. prepare_model_template env_without_max_len example_mapping
          (example_args\<lparr>args_max_model_len := Some 1000000\<rparr>) None None example_world =
          (Inr (m', example_loaded_tokenizer), example_loaded_world) \<and>
        max_model_len m' = args_max_model_len (example_args\<lparr>args_max_model_len := Some 1000000\<rparr>)"
proof -
  have g: "get_model_tokenizer env_without_max_len example_mapping
      (args_model_type (example_args\<lparr>args_max_model_len := Some 1000000\<rparr>))
      (args_torch_dtype (example_args\<lparr>args_max_model_len := Some 1000000\<rparr>))
      (Some (infer_model_kwargs env_without_max_len
         (example_args\<lparr>args_max_model_len := Some 1000000\<rparr>) None))
      True (infer_model_id_or_path (example_args\<lparr>args_max_model_len := Some 1000000\<rparr>))
      (args_model_revision (example_args\<lparr>args_max_model_len := Some 1000000\<rparr>))
      (infer_kwargs (example_args\<lparr>args_max_model_len := Some 1000000\<rparr>) None) example_world =
      (Inr (Some (example_loaded_model\<lparr>max_model_len := None\<rparr>), example_loaded_tokenizer),
       example_loaded_world)"
    by (simp add: example_defs pipeline_defs infer_defs)
  have n: "max_model_len (example_loaded_model\<lparr>max_model_len := None\<rparr>) = None"
    by simp
  show ?thesis by (rule max_model_len_override_unbounded[OF g n, THEN conjunct1])
qed

subsection \<open>Quantization extensions\<close>









subsection \<open>Monkey-patching twice\<close>

lemma torch_checkpoint_patched_once:
  "torch_utils_checkpoint_checkpoint
     (fix_gradient_checkpointing_warning e (fix_gradient_checkpointing_warning e w)) =
   torch_utils_checkpoint_checkpoint (fix_gradient_checkpointing_warning e w) \<and>
   torch_utils_checkpoint_old_checkpoint
     (fix_gradient_checkpointing_warning e (fix_gradient_checkpointing_warning e w)) =
   torch_utils_checkpoint_old_checkpoint (fix_gradient_checkpointing_warning e w)"
  by (simp add: fix_gradient_checkpointing_warning_def Let_def)

lemma call_checkpoint_Lambda_twice:
  "call_checkpoint (Lambda u (Lambda u old)) r = call_checkpoint (Lambda u old) r"
  by (cases r) simp_all

lemma check_gptq_model_patched_once:
  assumes "check_gptq_model e bits mk w = (Inr mk1, w1)"
    and "check_gptq_model e bits' mk' w1 = (Inr mk2, w2)"
  shows "w2 = w1"
  using assms
  by (auto simp: check_gptq_model_def Let_def split: if_splits)

lemma modeling_utils_checkpoint_rewrapped:
  assumes "\<not> version_less (torch_version e) (2, 0)"
    and "transformers_modeling_utils_checkpoint w \<noteq> None"
  shows "transformers_modeling_utils_checkpoint (fix_gradient_checkpointing_warning e w) =
           Some (Lambda (version_less (torch_version e) (2, 1)) (torch_utils_checkpoint_checkpoint w))"
  using assms by (simp add: fix_gradient_checkpointing_warning_def Let_def)

lemma torch_checkpoint_wrapped:
  assumes "\<not> version_less (torch_version e) (2, 0)"
    and "torch_utils_checkpoint_old_checkpoint w = None"
  shows "torch_utils_checkpoint_checkpoint (fix_gradient_checkpointing_warning e w) =
           Lambda (version_less (torch_version e) (2, 1)) (torch_utils_checkpoint_checkpoint w)"
  using assms by (simp add: fix_gradient_checkpointing_warning_def Let_def)

lemma modeling_utils_checkpoint_wrappers:
  assumes "\<not> version_less (torch_version e) (2, 0)"
    and "transformers_modeling_utils_checkpoint w \<noteq> None"
    and "torch_utils_checkpoint_old_checkpoint w = None"
  shows "map_option wrappers (transformers_modeling_utils_checkpoint
           (fix_gradient_checkpointing_warning e (fix_gradient_checkpointing_warning e w))) =
         Some (Suc (Suc (wrappers (torch_utils_checkpoint_checkpoint w))))"
  using assms by (simp add: fix_gradient_checkpointing_warning_def Let_def)

lemma new_forward_after_patch:
  assumes "QuantLinear_forward w = Forward" "QuantLinear_old_forward w = None"
    and "check_gptq_model e bits mk w = (Inr mk1, w1)"
  shows "QuantLinear_forward w1 = New_forward \<and> QuantLinear_old_forward w1 = Some Forward \<and>
         call_forward 2 w1 (QuantLinear_forward w1) q =
           Some (autogptq_cuda_available q \<and> \<not> training q, q)"
proof -
  from assms have w1: "w1 = w\<lparr>QuantLinear_old_forward := Some Forward, QuantLinear_forward := New_forward\<rparr>"
    by (auto simp: check_gptq_model_def Let_def split: if_splits)
  have two: "(2::nat) = Suc (Suc 0)" by simp
  show ?thesis unfolding w1 two by (cases q) auto
qed

text \<open>
  C6 does not hold for \<open>transformers.modeling_utils.checkpoint\<close>. The guard of
  \<open>fix_gradient_checkpointing_warning\<close> ("avoid double patching") covers
  \<open>torch.utils.checkpoint.checkpoint\<close> only; the assignment to
  \<open>transformers.modeling_utils.checkpoint\<close> is made by every call, around the function
  read from \<open>torch.utils.checkpoint.checkpoint\<close>, which the first call has patched. After
  two calls in the example environment the target is a lambda around a lambda, while
  \<open>torch.utils.checkpoint.checkpoint\<close> is wrapped once.
\<close>

theorem modeling_utils_checkpoint_wrapped_twice:
  "map_option wrappers (transformers_modeling_utils_checkpoint
     (fix_gradient_checkpointing_warning example_env example_world)) = Some 1 \<and>
   transformers_modeling_utils_checkpoint
     (fix_gradient_checkpointing_warning example_env
        (fix_gradient_checkpointing_warning example_env example_world)) =
     Some (Lambda False (Lambda False Checkpoint)) \<and>
   map_option wrappers (transformers_modeling_utils_checkpoint
     (fix_gradient_checkpointing_warning example_env
        (fix_gradient_checkpointing_warning example_env example_world))) = Some 2 \<and>
   torch_utils_checkpoint_checkpoint
     (fix_gradient_checkpointing_warning example_env
        (fix_gradient_checkpointing_warning example_env example_world)) =
     Lambda False Checkpoint"
  by (simp add: fix_gradient_checkpointing_warning_def version_less_def example_env_def
        example_world_def Let_def)

end
